theory Spec2Isabelle
  imports Main
begin

section \<open>The SSH command provider (main.go)\<close>

text \<open>
  The plugin has three functions: \<open>Evaluate\<close> (identity discovery), \<open>Execute\<close> (the
  check) and \<open>RunCommand\<close> (the remote executor). They call four libraries that are not
  part of the repository: the YAML decoder, the SSH client, the clock and the UUID
  generator. Each library call is a field of the record \<open>world\<close>, so that a function of
  the plugin is a function of its input and of the world it runs in.
\<close>

subsection \<open>Data\<close>

text \<open>\<open>SSHConfig\<close>, lines 20-26. A field the YAML text does not mention keeps Go's zero
  value, the empty string.\<close>

record SSHConfig =
  Username :: string
  Password :: string
  Host :: string
  Command :: string
  Port :: string

text \<open>\<open>input.Configuration\<close> is a Go \<open>map[string]string\<close>.\<close>

type_synonym Configuration = "string \<rightharpoonup> string"

text \<open>The entities of the provider package that the plugin builds. Field names carry
  the name of their struct, since several structs share \<open>Id\<close>, \<open>Title\<close>, \<open>Description\<close>
  and \<open>Remarks\<close>.\<close>

datatype SubjectType = SubjectType_INVENTORY_ITEM

datatype ExecutionStatus = ExecutionStatus_SUCCESS | ExecutionStatus_FAILURE

record Subject =
  Subject_Id :: string
  Subject_Type :: SubjectType
  Subject_Title :: string
  Subject_Props :: "string \<rightharpoonup> string"

record EvaluateResult =
  Subjects :: "Subject list"

text \<open>\<open>Link\<close> is opaque: the plugin only ever builds the empty list of links.\<close>

datatype Link = Link

record Property =
  Property_Name :: string
  Property_Value :: string

record Evidence =
  Evidence_Description :: string

record Observation =
  Observation_Id :: string
  Observation_Title :: string
  Observation_Description :: string
  Observation_Collected :: string
  Observation_Expires :: string
  Observation_Links :: "Link list"
  Observation_Props :: "Property list"
  Observation_RelevantEvidence :: "Evidence list"
  Observation_Remarks :: string

record Finding =
  Finding_Id :: string
  Finding_Title :: string
  Finding_Description :: string
  Finding_Remarks :: string
  Finding_RelatedObservations :: "string list"

record LogEntry =
  LogEntry_Title :: string
  LogEntry_Description :: string
  LogEntry_Start :: string
  LogEntry_End :: string

record ExecuteResult =
  Status :: ExecutionStatus
  Observations :: "Observation list"
  Findings :: "Finding list"
  Logs :: "LogEntry list"

subsection \<open>Errors\<close>

text \<open>Every error the plugin builds is an \<open>fmt.Errorf\<close> value; the constructor says which
  call built it and carries the text of the library error it wraps (\<open>%v\<close>). \<open>Error\<close> is
  the message.\<close>

datatype error =
    YamlMissing
  | YamlUnmarshal string
  | DialFailed string
  | NewSessionFailed string
  | ExecuteFailed string

fun Error :: "error \<Rightarrow> string" where
  "Error YamlMissing = ''yaml parameter is missing''"
| "Error (YamlUnmarshal e) = ''Error unmarshalling YAML: '' @ e @ [CHR 0x0A]"
| "Error (DialFailed e) = ''failed to dial: '' @ e"
| "Error (NewSessionFailed e) = ''failed to create session: '' @ e"
| "Error (ExecuteFailed e) = ''failed to execute command: '' @ e"

text \<open>What a call of \<open>Execute\<close> ends in: it returns to the host, with an error or a
  result, or \<open>log.Fatalf\<close> prints its message and ends the process with \<open>os.Exit(1)\<close>.\<close>

datatype outcome =
    Return "error + ExecuteResult"
  | Exit string

subsection \<open>The libraries\<close>

text \<open>The SSH client. \<open>ssh.Dial\<close> connects and authenticates; a session's
  \<open>CombinedOutput\<close> returns the bytes read and an error that is nil, an \<open>*ssh.ExitError\<close>
  (the remote process ended with that exit status) or anything else.\<close>

datatype AuthMethod = ssh_Password string

datatype HostKeyCallback = ssh_InsecureIgnoreHostKey

record ClientConfig =
  User :: string
  Auth :: "AuthMethod list"
  HostKeyCallback :: HostKeyCallback

type_synonym Client = nat
type_synonym Session = nat

datatype ssh_error = ExitError int | OtherError string

text \<open>The clock: \<open>time.Time\<close> at the resolution that \<open>time.RFC3339\<close> prints, whole
  seconds since 1970-01-01T00:00:00Z, in the location UTC.\<close>

datatype Time = Unix int

fun unix :: "Time \<Rightarrow> int" where
  "unix (Unix s) = s"

record world =
  yaml_Unmarshal :: "string \<Rightarrow> string + SSHConfig"
  ssh_Dial :: "string \<Rightarrow> string \<Rightarrow> ClientConfig \<Rightarrow> string + Client"
  ssh_NewSession :: "Client \<Rightarrow> string + Session"
  ssh_CombinedOutput :: "Session \<Rightarrow> string \<Rightarrow> string \<times> ssh_error option"
  time_Now :: "nat \<Rightarrow> Time"
  uuid_New :: "nat \<Rightarrow> string"

text \<open>
  \<^item> \<open>yaml_Unmarshal w s\<close> is \<open>yaml.Unmarshal([]byte(s), &ssh_config)\<close> on a zero
    \<open>ssh_config\<close>: \<open>Inl\<close> the text of the error, or \<open>Inr\<close> the struct as decoded.
  \<^item> \<open>time_Now w k\<close> and \<open>uuid_New w k\<close> are what the \<open>k\<close>-th call (from 0) of
    \<open>time.Now()\<close> and of \<open>uuid.New().String()\<close> returns within one call of \<open>Execute\<close>.
\<close>

subsection \<open>Formatting\<close>

text \<open>\<open>%d\<close> of a Go \<open>int\<close>.\<close>

fun digits :: "nat \<Rightarrow> string" where
  "digits n = (if n < 10 then [''0123456789'' ! n]
               else digits (n div 10) @ [''0123456789'' ! (n mod 10)])"

definition fmt_d :: "int \<Rightarrow> string" where
  "fmt_d i = (if i < 0 then ''-'' @ digits (nat (- i)) else digits (nat i))"

text \<open>The calendar of package \<open>time\<close>: the civil date of a day number (days since
  1970-01-01) and back. \<open>days_from_civil\<close> is linear in the day of the month and takes
  any month number, which is how \<open>time.Date\<close> normalises February 31 to March 2 or 3.\<close>

definition days_from_civil :: "int \<Rightarrow> int \<Rightarrow> int \<Rightarrow> int" where
  "days_from_civil year month day =
     (let y0 = year + (month - 1) div 12;
          m = (month - 1) mod 12 + 1;
          y = (if m \<le> 2 then y0 - 1 else y0);
          era = y div 400;
          yoe = y - era * 400;
          doy = (153 * (if m > 2 then m - 3 else m + 9) + 2) div 5 + day - 1;
          doe = yoe * 365 + yoe div 4 - yoe div 100 + doy
      in era * 146097 + doe - 719468)"

definition civil_from_days :: "int \<Rightarrow> int \<times> int \<times> int" where
  "civil_from_days z =
     (let z1 = z + 719468;
          era = z1 div 146097;
          doe = z1 - era * 146097;
          yoe = (doe - doe div 1460 + doe div 36524 - doe div 146096) div 365;
          doy = doe - (365 * yoe + yoe div 4 - yoe div 100);
          mp = (5 * doy + 2) div 153;
          d = doy - (153 * mp + 2) div 5 + 1;
          m = (if mp < 10 then mp + 3 else mp - 9);
          y = yoe + era * 400
      in (if m \<le> 2 then y + 1 else y, m, d))"

text \<open>\<open>time.Date(year, month, day, hour, min, sec, 0, time.UTC)\<close>.\<close>

definition Date :: "int \<Rightarrow> int \<Rightarrow> int \<Rightarrow> int \<Rightarrow> int \<Rightarrow> int \<Rightarrow> Time" where
  "Date year month day hour minute sec =
     Unix (days_from_civil year month day * 86400 + hour * 3600 + minute * 60 + sec)"

text \<open>\<open>t.AddDate(years, months, days)\<close>: the date and the clock of \<open>t\<close>, the three
  numbers added, normalised by \<open>Date\<close>.\<close>

definition AddDate :: "Time \<Rightarrow> int \<Rightarrow> int \<Rightarrow> int \<Rightarrow> Time" where
  "AddDate t years months days =
     (case civil_from_days (unix t div 86400) of (year, month, day) \<Rightarrow>
        (let c = unix t mod 86400
         in Date (year + years) (month + months) (day + days)
              (c div 3600) (c mod 3600 div 60) (c mod 60)))"

text \<open>\<open>appendInt\<close> of package \<open>time\<close>: a sign, then the digits padded with zeros to the
  width.\<close>

definition appendInt :: "int \<Rightarrow> nat \<Rightarrow> string" where
  "appendInt x width =
     (let ds = digits (nat \<bar>x\<bar>)
      in (if x < 0 then ''-'' else '''') @ replicate (width - length ds) (CHR ''0'') @ ds)"

text \<open>\<open>t.Format(time.RFC3339)\<close>, layout \<open>2006-01-02T15:04:05Z07:00\<close>, in UTC.\<close>

definition Format_RFC3339 :: "Time \<Rightarrow> string" where
  "Format_RFC3339 t =
     (case civil_from_days (unix t div 86400) of (year, month, day) \<Rightarrow>
        (let c = unix t mod 86400
         in appendInt year 4 @ ''-'' @ appendInt month 2 @ ''-'' @ appendInt day 2 @ ''T'' @
            appendInt (c div 3600) 2 @ '':'' @ appendInt (c mod 3600 div 60) 2 @ '':'' @
            appendInt (c mod 60) 2 @ ''Z''))"

subsection \<open>Evaluate\<close>

text \<open>Lines 28-66. The value is decoded before the presence of the key is looked at; a
  missing key reads as the empty string. The \<open>log.Printf\<close> of line 32 writes to the log
  only.\<close>

definition Evaluate :: "world \<Rightarrow> Configuration \<Rightarrow> error + EvaluateResult" where
  "Evaluate w Configuration =
     (let yamlString = (case Configuration ''yaml'' of Some s \<Rightarrow> s | None \<Rightarrow> '''');
          ok = (Configuration ''yaml'' \<noteq> None)
      in case yaml_Unmarshal w yamlString of
           Inl err \<Rightarrow> Inl (YamlUnmarshal err)
         | Inr ssh_config \<Rightarrow>
             if \<not> ok then Inl YamlMissing
             else
               (let username = Username ssh_config;
                    host = Host ssh_config;
                    command = Command ssh_config;
                    port = (if Port ssh_config = '''' then ''22'' else Port ssh_config);
                    ssh_target_id = username @ ''@'' @ host @ '':'' @ port @ '' '' @ command
                in Inr \<lparr>Subjects =
                     [\<lparr>Subject_Id = ssh_target_id,
                       Subject_Type = SubjectType_INVENTORY_ITEM,
                       Subject_Title = ''SSH target ssh '' @ ssh_target_id,
                       Subject_Props = [''id'' \<mapsto> ssh_target_id]\<rparr>]\<rparr>))"

subsection \<open>RunCommand\<close>

text \<open>Lines 179-218. The three results are the output, the exit code and the error.
  The deferred \<open>Close\<close> calls release the connection and the session and change no
  result.\<close>

definition RunCommand :: "world \<Rightarrow> SSHConfig \<Rightarrow> string \<times> int \<times> error option" where
  "RunCommand w config =
     (let sshConfig = \<lparr>User = Username config,
                       Auth = [ssh_Password (Password config)],
                       HostKeyCallback = ssh_InsecureIgnoreHostKey\<rparr>;
          address = Host config @ '':'' @ Port config
      in case ssh_Dial w ''tcp'' address sshConfig of
           Inl err \<Rightarrow> ('''', - 1, Some (DialFailed err))
         | Inr client \<Rightarrow>
             (case ssh_NewSession w client of
                Inl err \<Rightarrow> ('''', - 1, Some (NewSessionFailed err))
              | Inr session \<Rightarrow>
                  (case ssh_CombinedOutput w session (Command config) of
                     (output, None) \<Rightarrow> (output, 0, None)
                   | (output, Some (ExitError status)) \<Rightarrow> (output, status, None)
                   | (output, Some (OtherError err)) \<Rightarrow>
                       ('''', - 1, Some (ExecuteFailed err)))))"

subsection \<open>Execute\<close>

text \<open>Lines 68-176. The clock is read four times: for \<open>start_time\<close>, for \<open>Collected\<close>,
  for \<open>Expires\<close> and for the end of the log entry. \<open>RunCommand\<close> gets \<open>ssh_config\<close> as
  decoded; the local \<open>port\<close> goes into \<open>ssh_target_command\<close>.\<close>

definition Execute :: "world \<Rightarrow> Configuration \<Rightarrow> outcome" where
  "Execute w Configuration =
     (let start_time = Format_RFC3339 (time_Now w 0)
      in case Configuration ''yaml'' of
           None \<Rightarrow> Return (Inl YamlMissing)
         | Some yamlString \<Rightarrow>
             (case yaml_Unmarshal w yamlString of
                Inl err \<Rightarrow> Return (Inl (YamlUnmarshal err))
              | Inr ssh_config \<Rightarrow>
                  (let username = Username ssh_config;
                       host = Host ssh_config;
                       command = Command ssh_config;
                       port = (if Port ssh_config = '''' then ''22'' else Port ssh_config);
                       obs_id = uuid_New w 0;
                       ssh_target_command =
                         ''ssh -p '' @ port @ '' '' @ username @ ''@'' @ host @ '' '' @ command
                   in case RunCommand w ssh_config of
                        (output, exit_code, Some err) \<Rightarrow>
                          Exit (''Failed to run command: '' @ Error err)
                      | (output, exit_code, None) \<Rightarrow>
                          (let logEntry = (\<lambda>end_time.
                                 \<lparr>LogEntry_Title = ''SSH Command Check'',
                                  LogEntry_Description = ''SSH command check has run successfully'',
                                  LogEntry_Start = start_time,
                                  LogEntry_End = end_time\<rparr>)
                           in if exit_code \<noteq> 0 then
                                (let obs =
                                   \<lparr>Observation_Id = obs_id,
                                    Observation_Title = ''SSH Command Did Not Succeed'',
                                    Observation_Description =
                                      ''The command: '' @ ssh_target_command @ '' did not succeed.'',
                                    Observation_Collected = Format_RFC3339 (time_Now w 1),
                                    Observation_Expires =
                                      Format_RFC3339 (AddDate (time_Now w 2) 0 1 0),
                                    Observation_Links = [],
                                    Observation_Props =
                                      [\<lparr>Property_Name = ''Command'',
                                        Property_Value = ssh_target_command\<rparr>],
                                    Observation_RelevantEvidence =
                                      [\<lparr>Evidence_Description =
                                          ''The command returned an exit code of '' @
                                          fmt_d exit_code @ '' for the command: '' @
                                          ssh_target_command\<rparr>],
                                    Observation_Remarks =
                                      ''The command: '' @ [CHR 0x27] @ ssh_target_command @
                                      [CHR 0x27] @ '' should return a zero exit code.''\<rparr>;
                                     fndngs =
                                   \<lparr>Finding_Id = uuid_New w 1,
                                    Finding_Title = ''SSH Command Failure'',
                                    Finding_Description =
                                      ''The command '' @ ssh_target_command @
                                      '' did not succeed, and produced output: '' @ output @ ''.'',
                                    Finding_Remarks =
                                      ''Correct the command '' @ ssh_target_command @ ''.'',
                                    Finding_RelatedObservations = [obs_id]\<rparr>
                                 in Return (Inr
                                      \<lparr>Status = ExecutionStatus_SUCCESS,
                                       Observations = [obs],
                                       Findings = [fndngs],
                                       Logs = [logEntry (Format_RFC3339 (time_Now w 3))]\<rparr>))
                              else
                                (let obs =
                                   \<lparr>Observation_Id = obs_id,
                                    Observation_Title = ''SSH Command Succeeded'',
                                    Observation_Description =
                                      ''The command: '' @ ssh_target_command @ '' succeeded.'',
                                    Observation_Collected = Format_RFC3339 (time_Now w 1),
                                    Observation_Expires =
                                      Format_RFC3339 (AddDate (time_Now w 2) 0 1 0),
                                    Observation_Links = [],
                                    Observation_Props =
                                      [\<lparr>Property_Name = ''Command'',
                                        Property_Value = ssh_target_command\<rparr>],
                                    Observation_RelevantEvidence =
                                      [\<lparr>Evidence_Description =
                                          ''The command returned an exit code of '' @
                                          fmt_d exit_code @ '' for the command: '' @
                                          ssh_target_command\<rparr>],
                                    Observation_Remarks = ''All OK.''\<rparr>
                                 in Return (Inr
                                      \<lparr>Status = ExecutionStatus_SUCCESS,
                                       Observations = [obs],
                                       Findings = [],
                                       Logs = [logEntry (Format_RFC3339 (time_Now w 3))]\<rparr>))))))"

subsection \<open>Concrete worlds\<close>

text \<open>Inputs for the closed theorems below. \<open>table_Unmarshal\<close> is a decoder given by
  the documents it accepts; like yaml.v2 it decodes the empty document to the zero
  struct without an error. In \<open>lab\<close> the server listens on the addresses given and refuses
  every other one, every session runs the command with the same reply, and the clock
  and the UUIDs are given by position.\<close>

definition table_Unmarshal :: "(string \<times> SSHConfig) list \<Rightarrow> string \<Rightarrow> string + SSHConfig" where
  "table_Unmarshal docs s =
     (if s = '''' then
        Inr \<lparr>Username = '''', Password = '''', Host = '''', Command = '''', Port = ''''\<rparr>
      else case map_of docs s of
             Some c \<Rightarrow> Inr c
           | None \<Rightarrow> Inl ''yaml: unmarshal errors'')"

definition lab ::
  "(string \<times> SSHConfig) list \<Rightarrow> string list \<Rightarrow> string \<times> ssh_error option \<Rightarrow> Time list \<Rightarrow> world"
where
  "lab docs listening reply clock =
     \<lparr>yaml_Unmarshal = table_Unmarshal docs,
      ssh_Dial = (\<lambda>network address config.
        if address \<in> set listening then Inr 0
        else Inl (''dial '' @ network @ '' '' @ address @ '': connect: connection refused'')),
      ssh_NewSession = (\<lambda>client. Inr 0),
      ssh_CombinedOutput = (\<lambda>session cmd. reply),
      time_Now = (\<lambda>k. if k < length clock then clock ! k else Unix 0),
      uuid_New = (\<lambda>k. ''uuid-'' @ digits k)\<rparr>"

text \<open>The configuration of the spec's scenarios, with and without its port.\<close>

definition svc :: SSHConfig where
  "svc = \<lparr>Username = ''svc'', Password = ''secret'', Host = ''10.0.0.5'',
          Command = ''systemctl is-active nginx'', Port = ''22''\<rparr>"

definition svc_yaml :: string where
  "svc_yaml = ''{username: svc, password: secret, host: 10.0.0.5, command: systemctl is-active nginx, port: 22}''"

definition svc_yaml_no_port :: string where
  "svc_yaml_no_port = ''{username: svc, password: secret, host: 10.0.0.5, command: systemctl is-active nginx}''"

definition svc_yaml_no_username :: string where
  "svc_yaml_no_username = ''{password: secret, host: 10.0.0.5, command: systemctl is-active nginx, port: 22}''"

text \<open>Two configurations that differ in port and command.\<close>

definition reboot_a :: SSHConfig where
  "reboot_a = \<lparr>Username = ''svc'', Password = ''secret'', Host = ''10.0.0.5'',
               Command = ''reboot'', Port = ''22 sudo''\<rparr>"

definition reboot_b :: SSHConfig where
  "reboot_b = \<lparr>Username = ''svc'', Password = ''secret'', Host = ''10.0.0.5'',
               Command = ''sudo reboot'', Port = ''22''\<rparr>"

definition reboot_a_yaml :: string where
  "reboot_a_yaml = ''{username: svc, password: secret, host: 10.0.0.5, command: reboot, port: 22 sudo}''"

definition reboot_b_yaml :: string where
  "reboot_b_yaml = ''{username: svc, password: secret, host: 10.0.0.5, command: sudo reboot, port: 22}''"

definition docs :: "(string \<times> SSHConfig) list" where
  "docs = [(svc_yaml, svc),
           (svc_yaml_no_port, svc\<lparr>Port := ''''\<rparr>),
           (svc_yaml_no_username, svc\<lparr>Username := ''''\<rparr>),
           (reboot_a_yaml, reboot_a),
           (reboot_b_yaml, reboot_b)]"

section \<open>Properties\<close>

subsection \<open>The concrete worlds, evaluated\<close>

lemmas yaml_defs = svc_yaml_def svc_yaml_no_port_def svc_yaml_no_username_def
  reboot_a_yaml_def reboot_b_yaml_def

lemma docs_svc: "table_Unmarshal docs svc_yaml = Inr svc"
  by (simp add: table_Unmarshal_def docs_def yaml_defs)

lemma docs_svc_no_port: "table_Unmarshal docs svc_yaml_no_port = Inr (svc\<lparr>Port := ''''\<rparr>)"
  by (simp add: table_Unmarshal_def docs_def yaml_defs)

lemma docs_svc_no_username:
  "table_Unmarshal docs svc_yaml_no_username = Inr (svc\<lparr>Username := ''''\<rparr>)"
  by (simp add: table_Unmarshal_def docs_def yaml_defs)

lemma docs_reboot_a: "table_Unmarshal docs reboot_a_yaml = Inr reboot_a"
  by (simp add: table_Unmarshal_def docs_def yaml_defs)

lemma docs_reboot_b: "table_Unmarshal docs reboot_b_yaml = Inr reboot_b"
  by (simp add: table_Unmarshal_def docs_def yaml_defs)

lemma lab_simps [simp]:
  "yaml_Unmarshal (lab d l r c) = table_Unmarshal d"
  "ssh_Dial (lab d l r c) n a cc =
     (if a \<in> set l then Inr 0
      else Inl (''dial '' @ n @ '' '' @ a @ '': connect: connection refused''))"
  "ssh_NewSession (lab d l r c) cl = Inr 0"
  "ssh_CombinedOutput (lab d l r c) se cmd = r"
  "time_Now (lab d l r c) k = (if k < length c then c ! k else Unix 0)"
  "uuid_New (lab d l r c) k = ''uuid-'' @ digits k"
  by (simp_all add: lab_def)

lemma refused_RunCommand:
  "RunCommand (lab docs [] r c) svc =
     ('''', - 1, Some (DialFailed ''dial tcp 10.0.0.5:22: connect: connection refused''))"
  by (simp add: RunCommand_def svc_def)

subsection \<open>The port of the connection\<close>

text \<open>
  C1. With no port in the configuration, the subject id of \<open>Evaluate\<close> is built with
  port 22, and the claim says \<open>RunCommand\<close> dials port 22 as well. It does not:
  \<open>Execute\<close> hands \<open>RunCommand\<close> the configuration as decoded, so the address dialled is
  the host, a colon and the empty port. The theorem shows it by what decides the
  outcome: when the dial of that address fails, \<open>Execute\<close> ends with the dial error,
  whatever listens on port 22.
\<close>

theorem Execute_dials_without_default_port:
  assumes "Configuration ''yaml'' = Some yamlString"
    and "yaml_Unmarshal w yamlString = Inr ssh_config"
    and "Port ssh_config = ''''"
    and "ssh_Dial w ''tcp'' (Host ssh_config @ '':'')
           \<lparr>User = Username ssh_config, Auth = [ssh_Password (Password ssh_config)],
            HostKeyCallback = ssh_InsecureIgnoreHostKey\<rparr> = Inl err"
  shows "Execute w Configuration = Exit (''Failed to run command: failed to dial: '' @ err) \<and>
         (\<exists>s. Evaluate w Configuration = Inr \<lparr>Subjects = [s]\<rparr> \<and>
              Subject_Id s =
                Username ssh_config @ ''@'' @ Host ssh_config @ '':22 '' @ Command ssh_config)"
proof -
  have "RunCommand w ssh_config = ('''', - 1, Some (DialFailed err))"
    using assms(3,4) by (simp add: RunCommand_def)
  then have "Execute w Configuration = Exit (''Failed to run command: failed to dial: '' @ err)"
    using assms(1,2) by (simp add: Execute_def Let_def)
  moreover have "\<exists>s. Evaluate w Configuration = Inr \<lparr>Subjects = [s]\<rparr> \<and>
      Subject_Id s = Username ssh_config @ ''@'' @ Host ssh_config @ '':22 '' @ Command ssh_config"
    using assms(1,2,3) by (simp add: Evaluate_def Let_def)
  ultimately show ?thesis by simp
qed

text \<open>The server listens on 10.0.0.5:22 and the configuration names no port: the
  subject id says port 22, and the connection is refused at \<open>10.0.0.5:\<close>.\<close>

theorem Execute_dials_without_default_port_witness:
  "Execute (lab docs [''10.0.0.5:22''] ('''', None) []) [''yaml'' \<mapsto> svc_yaml_no_port] =
     Exit ''Failed to run command: failed to dial: dial tcp 10.0.0.5:: connect: connection refused'' \<and>
   (\<exists>s. Evaluate (lab docs [''10.0.0.5:22''] ('''', None) []) [''yaml'' \<mapsto> svc_yaml_no_port] =
          Inr \<lparr>Subjects = [s]\<rparr> \<and>
        Subject_Id s = ''svc@10.0.0.5:22 systemctl is-active nginx'')"
proof -
  let ?w = "lab docs [''10.0.0.5:22''] ('''', None) []"
  let ?c = "svc\<lparr>Port := ''''\<rparr>"
  have key: "[''yaml'' \<mapsto> svc_yaml_no_port] ''yaml'' = Some svc_yaml_no_port" by simp
  have dec: "yaml_Unmarshal ?w svc_yaml_no_port = Inr ?c" by (simp add: docs_svc_no_port)
  have port: "Port ?c = ''''" by simp
  have dial: "ssh_Dial ?w ''tcp'' (Host ?c @ '':'')
      \<lparr>User = Username ?c, Auth = [ssh_Password (Password ?c)],
       HostKeyCallback = ssh_InsecureIgnoreHostKey\<rparr> =
      Inl ''dial tcp 10.0.0.5:: connect: connection refused''"
    by (simp add: svc_def)
  from Execute_dials_without_default_port
         [where Configuration = "[''yaml'' \<mapsto> svc_yaml_no_port]", OF key dec port dial]
  show ?thesis by (simp add: svc_def)
qed

subsection \<open>An error of the executor\<close>

text \<open>
  C2. The claim says that \<open>Execute\<close> returns an error result when \<open>RunCommand\<close> reports an
  error. The code calls \<open>log.Fatalf\<close> instead: whenever \<open>RunCommand\<close> returns an error,
  \<open>Execute\<close> returns nothing and the process ends with the message.
\<close>

theorem Execute_exits_on_ExecutionError:
  assumes "Configuration ''yaml'' = Some yamlString"
    and "yaml_Unmarshal w yamlString = Inr ssh_config"
    and "RunCommand w ssh_config = (output, exit_code, Some err)"
  shows "Execute w Configuration = Exit (''Failed to run command: '' @ Error err)"
  using assms by (simp add: Execute_def Let_def)

text \<open>Connection refused at dial time, the spec's scenario.\<close>

theorem Execute_exits_on_ExecutionError_witness:
  "RunCommand (lab docs [] ('''', None) []) svc =
     ('''', - 1, Some (DialFailed ''dial tcp 10.0.0.5:22: connect: connection refused'')) \<and>
   Execute (lab docs [] ('''', None) []) [''yaml'' \<mapsto> svc_yaml] =
     Exit ''Failed to run command: failed to dial: dial tcp 10.0.0.5:22: connect: connection refused''"
proof -
  let ?w = "lab docs [] ('''', None) []"
  have key: "[''yaml'' \<mapsto> svc_yaml] ''yaml'' = Some svc_yaml" by simp
  have dec: "yaml_Unmarshal ?w svc_yaml = Inr svc" by (simp add: docs_svc)
  have run: "RunCommand ?w svc =
     ('''', - 1, Some (DialFailed ''dial tcp 10.0.0.5:22: connect: connection refused''))"
    by (rule refused_RunCommand)
  from Execute_exits_on_ExecutionError
         [where Configuration = "[''yaml'' \<mapsto> svc_yaml]", OF key dec run] run
  show ?thesis by simp
qed

subsection \<open>Configuration errors\<close>

text \<open>
  C3. The claim says that a configuration without username, host or command makes
  \<open>Evaluate\<close> and \<open>Execute\<close> fail. Neither function looks at the decoded fields: a
  document without a username decodes to the empty username, \<open>Evaluate\<close> returns a
  Subject and \<open>Execute\<close> goes on to the executor.
\<close>

theorem missing_username_accepted:
  "Username (svc\<lparr>Username := ''''\<rparr>) = '''' \<and>
   yaml_Unmarshal (lab docs [''10.0.0.5:22''] ('''', None) []) svc_yaml_no_username =
     Inr (svc\<lparr>Username := ''''\<rparr>) \<and>
   \<not> (\<exists>e. Evaluate (lab docs [''10.0.0.5:22''] ('''', None) [])
               [''yaml'' \<mapsto> svc_yaml_no_username] = Inl e) \<and>
   \<not> (\<exists>e. Execute (lab docs [''10.0.0.5:22''] ('''', None) [])
               [''yaml'' \<mapsto> svc_yaml_no_username] = Return (Inl e))"
  by (simp add: docs_svc_no_username Evaluate_def Execute_def RunCommand_def Let_def svc_def)

text \<open>
  C3, as amended. \<open>Evaluate\<close> fails, and \<open>Execute\<close> returns an error, exactly when the
  configuration has no \<open>yaml\<close> entry or the decoder rejects its text. What the decoded
  fields hold plays no part.
\<close>

theorem config_error_iff:
  "((\<exists>e. Evaluate w Configuration = Inl e) \<longleftrightarrow>
      (Configuration ''yaml'' = None \<or>
       (\<exists>yamlString e. Configuration ''yaml'' = Some yamlString \<and>
                       yaml_Unmarshal w yamlString = Inl e))) \<and>
   ((\<exists>e. Execute w Configuration = Return (Inl e)) \<longleftrightarrow>
      (Configuration ''yaml'' = None \<or>
       (\<exists>yamlString e. Configuration ''yaml'' = Some yamlString \<and>
                       yaml_Unmarshal w yamlString = Inl e)))"
proof (cases "Configuration ''yaml''")
  case None
  then show ?thesis
    by (simp add: Evaluate_def Execute_def Let_def split: sum.splits)
next
  case (Some yamlString)
  show ?thesis
  proof (cases "yaml_Unmarshal w yamlString")
    case (Inl e)
    with Some show ?thesis by (simp add: Evaluate_def Execute_def Let_def)
  next
    case (Inr ssh_config)
    obtain out exit_code err where run: "RunCommand w ssh_config = (out, exit_code, err)"
      by (cases "RunCommand w ssh_config") auto
    from Some Inr run show ?thesis
      by (cases err) (simp_all add: Evaluate_def Execute_def Let_def)
  qed
qed

text \<open>
  C9. \<open>Evaluate\<close> decodes before it looks for the key and \<open>Execute\<close> looks for the key
  first. A missing key reads as the empty text, which yaml.v2 decodes without an error
  (the hypothesis); then both functions report the missing key in the same cases, the
  same decoding error in the same cases, and an error at all in the same cases.
\<close>

theorem validation_orders_agree:
  assumes "yaml_Unmarshal w '''' = Inr zero"
  shows "(Evaluate w Configuration = Inl YamlMissing \<longleftrightarrow>
            Execute w Configuration = Return (Inl YamlMissing)) \<and>
         (\<forall>e. Evaluate w Configuration = Inl (YamlUnmarshal e) \<longleftrightarrow>
            Execute w Configuration = Return (Inl (YamlUnmarshal e))) \<and>
         ((\<exists>e. Evaluate w Configuration = Inl e) \<longleftrightarrow>
            (\<exists>e. Execute w Configuration = Return (Inl e)))"
proof (cases "Configuration ''yaml''")
  case None
  with assms show ?thesis
    by (simp add: Evaluate_def Execute_def Let_def)
next
  case (Some yamlString)
  show ?thesis
  proof (cases "yaml_Unmarshal w yamlString")
    case (Inl e)
    with Some show ?thesis by (simp add: Evaluate_def Execute_def Let_def)
  next
    case (Inr ssh_config)
    obtain out exit_code err where run: "RunCommand w ssh_config = (out, exit_code, err)"
      by (cases "RunCommand w ssh_config") auto
    from Some Inr run show ?thesis
      by (cases err) (simp_all add: Evaluate_def Execute_def Let_def)
  qed
qed

text \<open>The configuration without a \<open>yaml\<close> entry: both report the missing key.\<close>

theorem validation_orders_agree_witness:
  "yaml_Unmarshal (lab docs [] ('''', None) []) '''' =
     Inr \<lparr>Username = '''', Password = '''', Host = '''', Command = '''', Port = ''''\<rparr> \<and>
   Evaluate (lab docs [] ('''', None) []) Map.empty = Inl YamlMissing \<and>
   Execute (lab docs [] ('''', None) []) Map.empty = Return (Inl YamlMissing)"
proof -
  let ?w = "lab docs [] ('''', None) []"
  have dec: "yaml_Unmarshal ?w '''' =
      Inr \<lparr>Username = '''', Password = '''', Host = '''', Command = '''', Port = ''''\<rparr>"
    by (simp add: table_Unmarshal_def)
  have "Execute ?w Map.empty = Return (Inl YamlMissing)"
    by (simp add: Execute_def)
  with validation_orders_agree [OF dec, of Map.empty] dec show ?thesis by simp
qed

subsection \<open>The subject id\<close>

text \<open>
  C8. The id of the Subject that \<open>Evaluate\<close> returns is a function of the username, the
  host, the effective port and the command: two calls whose decoded configurations agree
  on the four return the same id, in any two worlds, so a second call with the same
  configuration does.
\<close>

theorem Evaluate_id_determined:
  assumes "Configuration1 ''yaml'' = Some yamlString1"
    and "yaml_Unmarshal w1 yamlString1 = Inr config1"
    and "Configuration2 ''yaml'' = Some yamlString2"
    and "yaml_Unmarshal w2 yamlString2 = Inr config2"
    and "Username config1 = Username config2"
    and "Host config1 = Host config2"
    and "(if Port config1 = '''' then ''22'' else Port config1) =
         (if Port config2 = '''' then ''22'' else Port config2)"
    and "Command config1 = Command config2"
  shows "\<exists>s1 s2. Evaluate w1 Configuration1 = Inr \<lparr>Subjects = [s1]\<rparr> \<and>
                 Evaluate w2 Configuration2 = Inr \<lparr>Subjects = [s2]\<rparr> \<and>
                 Subject_Id s1 = Subject_Id s2"
proof -
  let ?id = "\<lambda>c. Username c @ ''@'' @ Host c @ '':'' @
                  (if Port c = '''' then ''22'' else Port c) @ '' '' @ Command c"
  have 1: "\<exists>s. Evaluate w1 Configuration1 = Inr \<lparr>Subjects = [s]\<rparr> \<and> Subject_Id s = ?id config1"
    using assms(1,2) by (simp add: Evaluate_def Let_def)
  have 2: "\<exists>s. Evaluate w2 Configuration2 = Inr \<lparr>Subjects = [s]\<rparr> \<and> Subject_Id s = ?id config2"
    using assms(3,4) by (simp add: Evaluate_def Let_def)
  have "?id config1 = ?id config2"
    using assms(5-8) by simp
  with 1 2 show ?thesis by metis
qed

text \<open>The scenario's configuration with port 22 and without a port, in two worlds
  (another server, another clock): one id.\<close>

theorem Evaluate_id_determined_witness:
  "\<exists>s1 s2.
     Evaluate (lab docs [] ('''', None) []) [''yaml'' \<mapsto> svc_yaml] = Inr \<lparr>Subjects = [s1]\<rparr> \<and>
     Evaluate (lab docs [''10.0.0.5:22''] (''active'', None) [Unix 0])
       [''yaml'' \<mapsto> svc_yaml_no_port] = Inr \<lparr>Subjects = [s2]\<rparr> \<and>
     Subject_Id s1 = Subject_Id s2"
proof -
  let ?w1 = "lab docs [] ('''', None) []"
  let ?w2 = "lab docs [''10.0.0.5:22''] (''active'', None) [Unix 0]"
  let ?c2 = "svc\<lparr>Port := ''''\<rparr>"
  have k1: "[''yaml'' \<mapsto> svc_yaml] ''yaml'' = Some svc_yaml" by simp
  have d1: "yaml_Unmarshal ?w1 svc_yaml = Inr svc" by (simp add: docs_svc)
  have k2: "[''yaml'' \<mapsto> svc_yaml_no_port] ''yaml'' = Some svc_yaml_no_port" by simp
  have d2: "yaml_Unmarshal ?w2 svc_yaml_no_port = Inr ?c2" by (simp add: docs_svc_no_port)
  have u: "Username svc = Username ?c2" and h: "Host svc = Host ?c2"
    and c: "Command svc = Command ?c2" by simp_all
  have p: "(if Port svc = '''' then ''22'' else Port svc) =
           (if Port ?c2 = '''' then ''22'' else Port ?c2)" by (simp add: svc_def)
  show ?thesis
    by (rule Evaluate_id_determined
          [where ?Configuration1.0 = "[''yaml'' \<mapsto> svc_yaml]"
             and ?Configuration2.0 = "[''yaml'' \<mapsto> svc_yaml_no_port]",
           OF k1 d1 k2 d2 u h p c])
qed

text \<open>
  C10. The id does not determine the configuration: port \<open>22 sudo\<close> with command
  \<open>reboot\<close> and port \<open>22\<close> with command \<open>sudo reboot\<close> give the same id.
\<close>

theorem Evaluate_id_not_injective:
  "\<exists>w yamlString1 yamlString2 config1 config2 s1 s2.
     yaml_Unmarshal w yamlString1 = Inr config1 \<and>
     yaml_Unmarshal w yamlString2 = Inr config2 \<and>
     (Username config1, Host config1, Port config1, Command config1) \<noteq>
       (Username config2, Host config2, Port config2, Command config2) \<and>
     Evaluate w [''yaml'' \<mapsto> yamlString1] = Inr \<lparr>Subjects = [s1]\<rparr> \<and>
     Evaluate w [''yaml'' \<mapsto> yamlString2] = Inr \<lparr>Subjects = [s2]\<rparr> \<and>
     Subject_Id s1 = Subject_Id s2"
proof -
  let ?w = "lab docs [] ('''', None) []"
  let ?s = "\<lparr>Subject_Id = ''svc@10.0.0.5:22 sudo reboot'',
             Subject_Type = SubjectType_INVENTORY_ITEM,
             Subject_Title = ''SSH target ssh svc@10.0.0.5:22 sudo reboot'',
             Subject_Props = [''id'' \<mapsto> ''svc@10.0.0.5:22 sudo reboot'']\<rparr>"
  have a: "yaml_Unmarshal ?w reboot_a_yaml = Inr reboot_a" by (simp add: docs_reboot_a)
  have b: "yaml_Unmarshal ?w reboot_b_yaml = Inr reboot_b" by (simp add: docs_reboot_b)
  have ne: "(Username reboot_a, Host reboot_a, Port reboot_a, Command reboot_a) \<noteq>
        (Username reboot_b, Host reboot_b, Port reboot_b, Command reboot_b)"
    by (simp add: reboot_a_def reboot_b_def)
  have ea: "Evaluate ?w [''yaml'' \<mapsto> reboot_a_yaml] = Inr \<lparr>Subjects = [?s]\<rparr>"
    by (simp add: Evaluate_def Let_def docs_reboot_a reboot_a_def)
  have eb: "Evaluate ?w [''yaml'' \<mapsto> reboot_b_yaml] = Inr \<lparr>Subjects = [?s]\<rparr>"
    by (simp add: Evaluate_def Let_def docs_reboot_b reboot_b_def)
  from a b ne ea eb show ?thesis by blast
qed

subsection \<open>The executor's exit status\<close>

lemma exit3_RunCommand:
  "RunCommand (lab docs [''10.0.0.5:22''] (''inactive'', Some (ExitError 3)) c) svc =
     (''inactive'', 3, None)"
  by (simp add: RunCommand_def svc_def)

lemma exit0_RunCommand:
  "RunCommand (lab docs [''10.0.0.5:22''] (''active'', None) c) svc = (''active'', 0, None)"
  by (simp add: RunCommand_def svc_def)

text \<open>
  C6. When the session reports that the remote process ended with an exit status (an
  \<open>*ssh.ExitError\<close>), \<open>RunCommand\<close> returns the output and that status with a nil error.
  It returns an error only when the dial (connection and authentication), the creation
  of the session, or the run of the command with an error of another kind failed.
\<close>

theorem RunCommand_exit_status:
  "(\<forall>client session output status.
      ssh_Dial w ''tcp'' (Host config @ '':'' @ Port config)
        \<lparr>User = Username config, Auth = [ssh_Password (Password config)],
         HostKeyCallback = ssh_InsecureIgnoreHostKey\<rparr> = Inr client \<and>
      ssh_NewSession w client = Inr session \<and>
      ssh_CombinedOutput w session (Command config) = (output, Some (ExitError status)) \<longrightarrow>
      RunCommand w config = (output, status, None)) \<and>
   (\<forall>output exit_code err.
      RunCommand w config = (output, exit_code, Some err) \<longrightarrow>
      (\<exists>e. ssh_Dial w ''tcp'' (Host config @ '':'' @ Port config)
             \<lparr>User = Username config, Auth = [ssh_Password (Password config)],
              HostKeyCallback = ssh_InsecureIgnoreHostKey\<rparr> = Inl e \<and>
           err = DialFailed e) \<or>
      (\<exists>client e. ssh_Dial w ''tcp'' (Host config @ '':'' @ Port config)
             \<lparr>User = Username config, Auth = [ssh_Password (Password config)],
              HostKeyCallback = ssh_InsecureIgnoreHostKey\<rparr> = Inr client \<and>
           ssh_NewSession w client = Inl e \<and> err = NewSessionFailed e) \<or>
      (\<exists>client session out e. ssh_Dial w ''tcp'' (Host config @ '':'' @ Port config)
             \<lparr>User = Username config, Auth = [ssh_Password (Password config)],
              HostKeyCallback = ssh_InsecureIgnoreHostKey\<rparr> = Inr client \<and>
           ssh_NewSession w client = Inr session \<and>
           ssh_CombinedOutput w session (Command config) = (out, Some (OtherError e)) \<and>
           err = ExecuteFailed e))"
proof (intro conjI allI impI)
  fix client session out status
  assume "ssh_Dial w ''tcp'' (Host config @ '':'' @ Port config)
        \<lparr>User = Username config, Auth = [ssh_Password (Password config)],
         HostKeyCallback = ssh_InsecureIgnoreHostKey\<rparr> = Inr client \<and>
      ssh_NewSession w client = Inr session \<and>
      ssh_CombinedOutput w session (Command config) = (out, Some (ExitError status))"
  then show "RunCommand w config = (out, status, None)"
    by (simp add: RunCommand_def)
next
  fix out0 exit_code err
  assume "RunCommand w config = (out0, exit_code, Some err)"
  then show "(\<exists>e. ssh_Dial w ''tcp'' (Host config @ '':'' @ Port config)
             \<lparr>User = Username config, Auth = [ssh_Password (Password config)],
              HostKeyCallback = ssh_InsecureIgnoreHostKey\<rparr> = Inl e \<and>
           err = DialFailed e) \<or>
      (\<exists>client e. ssh_Dial w ''tcp'' (Host config @ '':'' @ Port config)
             \<lparr>User = Username config, Auth = [ssh_Password (Password config)],
              HostKeyCallback = ssh_InsecureIgnoreHostKey\<rparr> = Inr client \<and>
           ssh_NewSession w client = Inl e \<and> err = NewSessionFailed e) \<or>
      (\<exists>client session out e. ssh_Dial w ''tcp'' (Host config @ '':'' @ Port config)
             \<lparr>User = Username config, Auth = [ssh_Password (Password config)],
              HostKeyCallback = ssh_InsecureIgnoreHostKey\<rparr> = Inr client \<and>
           ssh_NewSession w client = Inr session \<and>
           ssh_CombinedOutput w session (Command config) = (out, Some (OtherError e)) \<and>
           err = ExecuteFailed e)"
    by (auto simp add: RunCommand_def split: sum.splits prod.splits option.splits ssh_error.splits)
qed

text \<open>Exit status 3 from a server that is up; a dial error from one that is down.\<close>

theorem RunCommand_exit_status_witness:
  "RunCommand (lab docs [''10.0.0.5:22''] (''inactive'', Some (ExitError 3)) []) svc =
     (''inactive'', 3, None) \<and>
   RunCommand (lab docs [] (''inactive'', Some (ExitError 3)) []) svc =
     ('''', - 1, Some (DialFailed ''dial tcp 10.0.0.5:22: connect: connection refused'')) \<and>
   ssh_Dial (lab docs [] (''inactive'', Some (ExitError 3)) []) ''tcp'' ''10.0.0.5:22''
     \<lparr>User = ''svc'', Auth = [ssh_Password ''secret''],
      HostKeyCallback = ssh_InsecureIgnoreHostKey\<rparr> =
     Inl ''dial tcp 10.0.0.5:22: connect: connection refused''"
proof -
  let ?up = "lab docs [''10.0.0.5:22''] (''inactive'', Some (ExitError 3)) []"
  let ?down = "lab docs [] (''inactive'', Some (ExitError 3)) []"
  have ran: "ssh_Dial ?up ''tcp'' (Host svc @ '':'' @ Port svc)
        \<lparr>User = Username svc, Auth = [ssh_Password (Password svc)],
         HostKeyCallback = ssh_InsecureIgnoreHostKey\<rparr> = Inr 0 \<and>
      ssh_NewSession ?up 0 = Inr 0 \<and>
      ssh_CombinedOutput ?up 0 (Command svc) = (''inactive'', Some (ExitError 3))"
    by (simp add: svc_def)
  have 1: "RunCommand ?up svc = (''inactive'', 3, None)"
    using RunCommand_exit_status [of ?up svc, THEN conjunct1, rule_format, OF ran] .
  have failed: "RunCommand ?down svc =
      ('''', - 1, Some (DialFailed ''dial tcp 10.0.0.5:22: connect: connection refused''))"
    by (rule refused_RunCommand)
  have 2: "ssh_Dial ?down ''tcp'' ''10.0.0.5:22''
     \<lparr>User = ''svc'', Auth = [ssh_Password ''secret''],
      HostKeyCallback = ssh_InsecureIgnoreHostKey\<rparr> =
     Inl ''dial tcp 10.0.0.5:22: connect: connection refused''"
    using RunCommand_exit_status [of ?down svc, THEN conjunct2, rule_format, OF failed]
    by (simp add: svc_def)
  from 1 failed 2 show ?thesis by simp
qed

subsection \<open>The evidence\<close>

text \<open>
  C4. When the command ran and its exit code is not 0, \<open>Execute\<close> returns status
  SUCCESS with exactly one Observation, titled \<open>SSH Command Did Not Succeed\<close>, and exactly
  one Finding, titled \<open>SSH Command Failure\<close>, whose related observations are exactly the
  id of that Observation.
\<close>

theorem Execute_nonzero_exit:
  assumes "Configuration ''yaml'' = Some yamlString"
    and "yaml_Unmarshal w yamlString = Inr ssh_config"
    and "RunCommand w ssh_config = (output, exit_code, None)"
    and "exit_code \<noteq> 0"
  shows "\<exists>obs fndngs logs.
           Execute w Configuration =
             Return (Inr \<lparr>Status = ExecutionStatus_SUCCESS, Observations = [obs],
                           Findings = [fndngs], Logs = logs\<rparr>) \<and>
           Observation_Title obs = ''SSH Command Did Not Succeed'' \<and>
           Finding_Title fndngs = ''SSH Command Failure'' \<and>
           Finding_RelatedObservations fndngs = [Observation_Id obs]"
  using assms by (simp add: Execute_def Let_def)

text \<open>The spec's scenario with exit code 3.\<close>

theorem Execute_nonzero_exit_witness:
  "RunCommand (lab docs [''10.0.0.5:22''] (''inactive'', Some (ExitError 3)) []) svc =
     (''inactive'', 3, None) \<and>
   (\<exists>obs fndngs logs.
      Execute (lab docs [''10.0.0.5:22''] (''inactive'', Some (ExitError 3)) [])
        [''yaml'' \<mapsto> svc_yaml] =
        Return (Inr \<lparr>Status = ExecutionStatus_SUCCESS, Observations = [obs],
                      Findings = [fndngs], Logs = logs\<rparr>) \<and>
      Observation_Title obs = ''SSH Command Did Not Succeed'' \<and>
      Finding_Title fndngs = ''SSH Command Failure'' \<and>
      Finding_RelatedObservations fndngs = [Observation_Id obs])"
proof -
  let ?w = "lab docs [''10.0.0.5:22''] (''inactive'', Some (ExitError 3)) []"
  have key: "[''yaml'' \<mapsto> svc_yaml] ''yaml'' = Some svc_yaml" by simp
  have dec: "yaml_Unmarshal ?w svc_yaml = Inr svc" by (simp add: docs_svc)
  have run: "RunCommand ?w svc = (''inactive'', 3, None)" by (rule exit3_RunCommand)
  have nz: "(3::int) \<noteq> 0" by simp
  from Execute_nonzero_exit
         [where Configuration = "[''yaml'' \<mapsto> svc_yaml]", OF key dec run nz] run
  show ?thesis by blast
qed

text \<open>
  C5. The claim gives the remarks of the Observation of a successful run as \<open>All OK\<close>.
  The code writes \<open>All OK.\<close>, with a full stop: in the spec's scenario with exit code 0
  no result of \<open>Execute\<close> has an Observation with the remarks \<open>All OK\<close>.
\<close>

theorem remarks_not_All_OK:
  "RunCommand (lab docs [''10.0.0.5:22''] (''active'', None) []) svc = (''active'', 0, None) \<and>
   \<not> (\<exists>r obs.
        Execute (lab docs [''10.0.0.5:22''] (''active'', None) []) [''yaml'' \<mapsto> svc_yaml] =
          Return (Inr r) \<and>
        Observations r = [obs] \<and> Observation_Remarks obs = ''All OK'')"
  by (simp add: exit0_RunCommand Execute_def Let_def docs_svc)

text \<open>
  C5, as amended. When the command ran with exit code 0, \<open>Execute\<close> returns status
  SUCCESS with exactly one Observation and no Finding; the Observation is titled
  \<open>SSH Command Succeeded\<close>, its remarks are \<open>All OK.\<close>, and its one piece of evidence
  states the exit code 0 and the command line, built with the effective port.
\<close>

theorem Execute_zero_exit:
  assumes "Configuration ''yaml'' = Some yamlString"
    and "yaml_Unmarshal w yamlString = Inr ssh_config"
    and "RunCommand w ssh_config = (output, 0, None)"
  shows "\<exists>obs logs.
           Execute w Configuration =
             Return (Inr \<lparr>Status = ExecutionStatus_SUCCESS, Observations = [obs],
                           Findings = [], Logs = logs\<rparr>) \<and>
           Observation_Title obs = ''SSH Command Succeeded'' \<and>
           Observation_Remarks obs = ''All OK.'' \<and>
           Observation_RelevantEvidence obs =
             [\<lparr>Evidence_Description =
                 ''The command returned an exit code of 0 for the command: ssh -p '' @
                 (if Port ssh_config = '''' then ''22'' else Port ssh_config) @ '' '' @
                 Username ssh_config @ ''@'' @ Host ssh_config @ '' '' @ Command ssh_config\<rparr>]"
  using assms by (simp add: Execute_def Let_def fmt_d_def)

text \<open>The spec's scenario with exit code 0.\<close>

theorem Execute_zero_exit_witness:
  "RunCommand (lab docs [''10.0.0.5:22''] (''active'', None) []) svc = (''active'', 0, None) \<and>
   (\<exists>obs logs.
      Execute (lab docs [''10.0.0.5:22''] (''active'', None) []) [''yaml'' \<mapsto> svc_yaml] =
        Return (Inr \<lparr>Status = ExecutionStatus_SUCCESS, Observations = [obs],
                      Findings = [], Logs = logs\<rparr>) \<and>
      Observation_Title obs = ''SSH Command Succeeded'' \<and>
      Observation_Remarks obs = ''All OK.'' \<and>
      Observation_RelevantEvidence obs =
        [\<lparr>Evidence_Description =
            ''The command returned an exit code of 0 for the command: ssh -p 22 svc@10.0.0.5 systemctl is-active nginx''\<rparr>])"
proof -
  let ?w = "lab docs [''10.0.0.5:22''] (''active'', None) []"
  have key: "[''yaml'' \<mapsto> svc_yaml] ''yaml'' = Some svc_yaml" by simp
  have dec: "yaml_Unmarshal ?w svc_yaml = Inr svc" by (simp add: docs_svc)
  have run: "RunCommand ?w svc = (''active'', 0, None)" by (rule exit0_RunCommand)
  from Execute_zero_exit [where Configuration = "[''yaml'' \<mapsto> svc_yaml]", OF key dec run] run
  show ?thesis by (simp add: svc_def)
qed

subsection \<open>The expiry of an Observation\<close>

lemma collected_text: "Format_RFC3339 (Date 2024 3 10 9 59 59) = ''2024-03-10T09:59:59Z''"
  by code_simp

lemma expires_text:
  "Format_RFC3339 (AddDate (Date 2024 3 10 10 0 0) 0 1 0) = ''2024-04-10T10:00:00Z''"
  by code_simp

lemma month_after_collected_text:
  "Format_RFC3339 (AddDate (Date 2024 3 10 9 59 59) 0 1 0) = ''2024-04-10T09:59:59Z''"
  by code_simp

text \<open>
  C7. The claim says that \<open>Expires\<close> is \<open>Collected\<close> plus one month. On both branches the
  code reads the clock once for \<open>Collected\<close> and once more for \<open>Expires\<close>: the Observation
  holds the second reading of the clock as \<open>Collected\<close> and one month after the third
  reading as \<open>Expires\<close>. The offset \<open>AddDate(0, 1, 0)\<close> is a constant of the code.
\<close>

theorem Execute_expires:
  assumes "Configuration ''yaml'' = Some yamlString"
    and "yaml_Unmarshal w yamlString = Inr ssh_config"
    and "RunCommand w ssh_config = (output, exit_code, None)"
  shows "\<exists>obs fs logs.
           Execute w Configuration =
             Return (Inr \<lparr>Status = ExecutionStatus_SUCCESS, Observations = [obs],
                           Findings = fs, Logs = logs\<rparr>) \<and>
           Observation_Collected obs = Format_RFC3339 (time_Now w 1) \<and>
           Observation_Expires obs = Format_RFC3339 (AddDate (time_Now w 2) 0 1 0)"
  using assms by (simp add: Execute_def Let_def)

text \<open>The clock passes 10:00:00 between the two readings: collected at 09:59:59,
  expires at 10:00:00 a month later, one second after the month is over.\<close>

theorem Execute_expires_witness:
  "RunCommand (lab docs [''10.0.0.5:22''] (''active'', None)
       [Date 2024 3 10 9 59 58, Date 2024 3 10 9 59 59, Date 2024 3 10 10 0 0,
        Date 2024 3 10 10 0 1]) svc = (''active'', 0, None) \<and>
   (\<exists>obs fs logs.
      Execute (lab docs [''10.0.0.5:22''] (''active'', None)
          [Date 2024 3 10 9 59 58, Date 2024 3 10 9 59 59, Date 2024 3 10 10 0 0,
           Date 2024 3 10 10 0 1]) [''yaml'' \<mapsto> svc_yaml] =
        Return (Inr \<lparr>Status = ExecutionStatus_SUCCESS, Observations = [obs],
                      Findings = fs, Logs = logs\<rparr>) \<and>
      Observation_Collected obs = ''2024-03-10T09:59:59Z'' \<and>
      Observation_Expires obs = ''2024-04-10T10:00:00Z'') \<and>
   Format_RFC3339 (AddDate (Date 2024 3 10 9 59 59) 0 1 0) = ''2024-04-10T09:59:59Z''"
proof -
  let ?clock = "[Date 2024 3 10 9 59 58, Date 2024 3 10 9 59 59, Date 2024 3 10 10 0 0,
        Date 2024 3 10 10 0 1]"
  let ?w = "lab docs [''10.0.0.5:22''] (''active'', None) ?clock"
  have key: "[''yaml'' \<mapsto> svc_yaml] ''yaml'' = Some svc_yaml" by simp
  have dec: "yaml_Unmarshal ?w svc_yaml = Inr svc" by (simp add: docs_svc)
  have run: "RunCommand ?w svc = (''active'', 0, None)" by (rule exit0_RunCommand)
  have now1: "time_Now ?w 1 = Date 2024 3 10 9 59 59" by simp
  have now2: "time_Now ?w 2 = Date 2024 3 10 10 0 0" by simp
  from Execute_expires [where Configuration = "[''yaml'' \<mapsto> svc_yaml]", OF key dec run]
  show ?thesis
    unfolding now1 now2 collected_text expires_text month_after_collected_text
    using run by simp
qed

end
